theory Spec2Isabelle
  imports Complex_Main
begin

section \<open>Entity model (dispositivos/models.py)\<close>

text \<open>
  The choice lists of the models are datatypes. A timestamp is a reading of the clock, a
  natural number. A foreign key is the primary key of the referenced row; a nullable
  foreign key is an \<open>option\<close>, \<open>None\<close> being Python's \<open>None\<close>.
\<close>

datatype state = ACTIVE | INACTIVE

datatype level = CRITICAL | HIGH | MEDIUM | LOW

datatype role = ADMIN | OPERATOR | VIEWER | MANAGER

type_synonym timestamp = nat

text \<open>
  \<open>BaseModel\<close> is the abstract base class: every concrete model inherits its four
  fields. \<open>pk\<close> is the automatic primary key \<open>id\<close> that Django adds to every model.
\<close>

record BaseModel =
  pk :: nat
  state :: state
  created_at :: timestamp
  updated_at :: timestamp
  deleted_at :: "timestamp option"

record Category = BaseModel +
  name :: string

record Organization = BaseModel +
  name :: string
  email :: string

record Zone = BaseModel +
  name :: string

record Device = BaseModel +
  name :: string
  category :: nat
  zone :: nat
  max_usage :: nat
  organization :: nat

text \<open>\<open>usage\<close> is a float in the source; none of the functions below reads it.\<close>

record Measurement = BaseModel +
  device :: nat
  date :: timestamp
  usage :: real

record Alert = BaseModel +
  device :: nat
  message :: string
  date :: timestamp
  level :: level
  is_resolved :: bool

text \<open>
  \<open>User\<close> is django.contrib.auth's user, with the two fields the source reads.
  \<open>UserProfile.user\<close> is the related user object, as the attribute access
  \<open>self.user\<close> yields it.
\<close>

record User =
  username :: string
  is_superuser :: bool

record UserProfile = BaseModel +
  user :: User
  organization :: "nat option"
  role :: role
  phone :: string

text \<open>
  \<open>request.user\<close>: the user together with the reverse accessor \<open>profile\<close> of the
  one-to-one field (\<open>related_name='profile'\<close>). Reading \<open>user.profile\<close> of a user
  without a profile raises an \<open>AttributeError\<close> subclass, so
  \<open>hasattr(request.user, 'profile')\<close> is false exactly when \<open>profile\<close> is \<open>None\<close>.
\<close>

record request_user = User +
  profile :: "UserProfile option"

datatype message_level = INFO | WARNING

record request =
  user :: request_user
  messages :: "(message_level \<times> string) list"

record database =
  categories :: "Category list"
  zones :: "Zone list"
  organizations :: "Organization list"
  devices :: "Device list"
  measurements :: "Measurement list"
  alerts :: "Alert list"
  user_profiles :: "UserProfile list"

section \<open>Querysets\<close>

text \<open>
  A queryset is lazy: it is the WHERE clause of a query over the table of its model, and
  is evaluated against the database when it is listed, counted or updated. The clause may
  join other tables (\<open>device__organization\<close>), so it reads the database.
\<close>

type_synonym 'r queryset = "database \<Rightarrow> 'r \<Rightarrow> bool"

text \<open>
  What the source asks of a model class: its table, and whether the class has an attribute
  \<open>organization\<close> or \<open>device\<close> (\<open>hasattr(self.model, ...)\<close>); when it has, the value
  of that foreign key in a row.
\<close>

record 'r model_class =
  objects :: "database \<Rightarrow> 'r list"
  organization_attr :: "('r \<Rightarrow> nat option) option"
  device_attr :: "('r \<Rightarrow> nat) option"

definition Category_model :: "Category model_class" where
  "Category_model =
     \<lparr>objects = categories, organization_attr = None, device_attr = None\<rparr>"

definition Zone_model :: "Zone model_class" where
  "Zone_model = \<lparr>objects = zones, organization_attr = None, device_attr = None\<rparr>"

definition Organization_model :: "Organization model_class" where
  "Organization_model =
     \<lparr>objects = organizations, organization_attr = None, device_attr = None\<rparr>"

definition Device_model :: "Device model_class" where
  "Device_model =
     \<lparr>objects = devices,
      organization_attr = Some (\<lambda>d. Some (Device.organization d)),
      device_attr = None\<rparr>"

definition Measurement_model :: "Measurement model_class" where
  "Measurement_model =
     \<lparr>objects = measurements, organization_attr = None,
      device_attr = Some Measurement.device\<rparr>"

definition Alert_model :: "Alert model_class" where
  "Alert_model =
     \<lparr>objects = alerts, organization_attr = None, device_attr = Some Alert.device\<rparr>"

definition UserProfile_model :: "UserProfile model_class" where
  "UserProfile_model =
     \<lparr>objects = user_profiles,
      organization_attr = Some UserProfile.organization,
      device_attr = None\<rparr>"

text \<open>\<open>qs.none()\<close>, \<open>qs.filter(...)\<close> and the unfiltered queryset of a model.\<close>

definition qs_all :: "'r queryset" where
  "qs_all = (\<lambda>db r. True)"

definition qs_none :: "'r queryset \<Rightarrow> 'r queryset" where
  "qs_none qs = (\<lambda>db r. False)"

definition qs_filter :: "'r queryset \<Rightarrow> 'r queryset \<Rightarrow> 'r queryset" where
  "qs_filter qs cond = (\<lambda>db r. qs db r \<and> cond db r)"

text \<open>The rows a queryset selects, and \<open>queryset.count()\<close>.\<close>

definition fetch :: "'r model_class \<Rightarrow> 'r queryset \<Rightarrow> database \<Rightarrow> 'r list" where
  "fetch m qs db = filter (qs db) (objects m db)"

definition count :: "'r model_class \<Rightarrow> 'r queryset \<Rightarrow> database \<Rightarrow> nat" where
  "count m qs db = length (fetch m qs db)"

text \<open>
  The join of the lookup \<open>device__organization\<close>: the organization of the device row
  whose primary key is the row's \<open>device\<close>. No such device row, no match.
\<close>

definition device__organization :: "database \<Rightarrow> nat \<Rightarrow> nat option" where
  "device__organization db dpk =
     map_option Device.organization (find (\<lambda>d. pk d = dpk) (devices db))"

section \<open>The admin classes (dispositivos/admin.py)\<close>

text \<open>
  \<open>ModelAdmin.get_queryset\<close> of the framework, which \<open>MasterDataAdmin\<close> and
  \<open>BaseModelAdmin\<close> inherit unchanged and \<open>super().get_queryset(request)\<close> calls:
  every row of the model's table.
\<close>

definition ModelAdmin_get_queryset :: "'r model_class \<Rightarrow> request \<Rightarrow> 'r queryset" where
  "ModelAdmin_get_queryset m req = qs_all"

text \<open>
  \<open>OrganizationFilteredAdmin.get_queryset\<close>. A model instance is truthy, so
  \<open>request.user.profile.organization\<close> is falsy exactly when it is \<open>None\<close>.
\<close>

definition OrganizationFilteredAdmin_get_queryset ::
  "'r model_class \<Rightarrow> request \<Rightarrow> 'r queryset" where
  "OrganizationFilteredAdmin_get_queryset m req =
     (let qs = ModelAdmin_get_queryset m req in
      if \<not> is_superuser (request.user req) then
        (case profile (request.user req) of
           Some p \<Rightarrow>
             (case UserProfile.organization p of
                Some user_org \<Rightarrow>
                  (case organization_attr m of
                     Some org_of \<Rightarrow> qs_filter qs (\<lambda>db r. org_of r = Some user_org)
                   | None \<Rightarrow>
                       (case device_attr m of
                          Some dev_of \<Rightarrow>
                            qs_filter qs
                              (\<lambda>db r. device__organization db (dev_of r) = Some user_org)
                        | None \<Rightarrow> qs_none qs))
              | None \<Rightarrow> qs_none qs)
         | None \<Rightarrow> qs_none qs)
      else qs)"

text \<open>The registered admin classes, each with the \<open>get_queryset\<close> of its base class.\<close>

definition CategoryAdmin_get_queryset :: "request \<Rightarrow> Category queryset" where
  "CategoryAdmin_get_queryset = ModelAdmin_get_queryset Category_model"

definition ZoneAdmin_get_queryset :: "request \<Rightarrow> Zone queryset" where
  "ZoneAdmin_get_queryset = ModelAdmin_get_queryset Zone_model"

definition OrganizationAdmin_get_queryset :: "request \<Rightarrow> Organization queryset" where
  "OrganizationAdmin_get_queryset = ModelAdmin_get_queryset Organization_model"

definition DeviceAdmin_get_queryset :: "request \<Rightarrow> Device queryset" where
  "DeviceAdmin_get_queryset = OrganizationFilteredAdmin_get_queryset Device_model"

definition MeasurementAdmin_get_queryset :: "request \<Rightarrow> Measurement queryset" where
  "MeasurementAdmin_get_queryset = OrganizationFilteredAdmin_get_queryset Measurement_model"

definition AlertAdmin_get_queryset :: "request \<Rightarrow> Alert queryset" where
  "AlertAdmin_get_queryset = OrganizationFilteredAdmin_get_queryset Alert_model"

definition UserProfileAdmin_get_queryset :: "request \<Rightarrow> UserProfile queryset" where
  "UserProfileAdmin_get_queryset = ModelAdmin_get_queryset UserProfile_model"

section \<open>Methods of UserProfile (dispositivos/models.py)\<close>

text \<open>
  Two model instances are equal when their primary keys are, and \<open>None == None\<close> holds
  in Python: the comparison \<open>self.organization == organization\<close> is equality of
  nullable keys.
\<close>

definition has_organization_access :: "UserProfile \<Rightarrow> nat option \<Rightarrow> bool" where
  "has_organization_access self org =
     (if is_superuser (UserProfile.user self) then True
      else UserProfile.organization self = org)"

definition can_edit_devices :: "UserProfile \<Rightarrow> bool" where
  "can_edit_devices self = (role self \<in> set [ADMIN, OPERATOR, MANAGER])"

definition can_view_all_organizations :: "UserProfile \<Rightarrow> bool" where
  "can_view_all_organizations self =
     (is_superuser (UserProfile.user self) \<or> role self = ADMIN)"

section \<open>Creating records: the field defaults\<close>

text \<open>
  \<open>Model.objects.create(**kwargs)\<close>: a field with a \<open>default\<close> takes it when the
  keyword is absent (\<open>None\<close> below), \<open>auto_now_add\<close> and \<open>auto_now\<close> fields are set
  from the clock \<open>now\<close> when the row is first saved, a nullable field without default is
  null, and a \<open>CharField\<close> with \<open>blank=True\<close> and no default is the empty string.
  \<open>i\<close> is the primary key the database assigns.
\<close>

definition field_default :: "'a \<Rightarrow> 'a option \<Rightarrow> 'a" where
  "field_default d kw = (case kw of None \<Rightarrow> d | Some v \<Rightarrow> v)"

definition Category_create :: "nat \<Rightarrow> timestamp \<Rightarrow> string \<Rightarrow> state option \<Rightarrow> Category" where
  "Category_create i now nm st =
     \<lparr>pk = i, state = field_default ACTIVE st, created_at = now, updated_at = now,
      deleted_at = None, Category.name = nm\<rparr>"

definition Organization_create ::
  "nat \<Rightarrow> timestamp \<Rightarrow> string \<Rightarrow> string \<Rightarrow> state option \<Rightarrow> Organization" where
  "Organization_create i now nm em st =
     \<lparr>pk = i, state = field_default ACTIVE st, created_at = now, updated_at = now,
      deleted_at = None, Organization.name = nm, email = em\<rparr>"

definition Zone_create :: "nat \<Rightarrow> timestamp \<Rightarrow> string \<Rightarrow> state option \<Rightarrow> Zone" where
  "Zone_create i now nm st =
     \<lparr>pk = i, state = field_default ACTIVE st, created_at = now, updated_at = now,
      deleted_at = None, Zone.name = nm\<rparr>"

definition Device_create ::
  "nat \<Rightarrow> timestamp \<Rightarrow> string \<Rightarrow> nat \<Rightarrow> nat \<Rightarrow> nat \<Rightarrow> nat \<Rightarrow> state option \<Rightarrow> Device" where
  "Device_create i now nm cat zn mx org st =
     \<lparr>pk = i, state = field_default ACTIVE st, created_at = now, updated_at = now,
      deleted_at = None, Device.name = nm, category = cat, zone = zn, max_usage = mx,
      organization = org\<rparr>"

definition Measurement_create ::
  "nat \<Rightarrow> timestamp \<Rightarrow> nat \<Rightarrow> real \<Rightarrow> state option \<Rightarrow> Measurement" where
  "Measurement_create i now dev us st =
     \<lparr>pk = i, state = field_default ACTIVE st, created_at = now, updated_at = now,
      deleted_at = None, Measurement.device = dev, Measurement.date = now, usage = us\<rparr>"

definition Alert_create ::
  "nat \<Rightarrow> timestamp \<Rightarrow> nat \<Rightarrow> string \<Rightarrow> level option \<Rightarrow> bool option \<Rightarrow> state option \<Rightarrow> Alert"
  where
  "Alert_create i now dev msg lv res st =
     \<lparr>pk = i, state = field_default ACTIVE st, created_at = now, updated_at = now,
      deleted_at = None, Alert.device = dev, message = msg, Alert.date = now,
      level = field_default MEDIUM lv, is_resolved = field_default False res\<rparr>"

definition UserProfile_create ::
  "nat \<Rightarrow> timestamp \<Rightarrow> User \<Rightarrow> nat option \<Rightarrow> role option \<Rightarrow> string option \<Rightarrow> state option
     \<Rightarrow> UserProfile" where
  "UserProfile_create i now u org rl ph st =
     \<lparr>pk = i, state = field_default ACTIVE st, created_at = now, updated_at = now,
      deleted_at = None, UserProfile.user = u, UserProfile.organization = org, role = field_default VIEWER rl,
      phone = field_default [] ph\<rparr>"

text \<open>
  \<open>Model.save()\<close> of a row that exists, which the admin's change form calls: the
  \<open>auto_now\<close> field \<open>updated_at\<close> is set from the clock, the \<open>auto_now_add\<close> field
  \<open>created_at\<close> is left alone.
\<close>

definition save :: "timestamp \<Rightarrow> 'a BaseModel_scheme \<Rightarrow> 'a BaseModel_scheme" where
  "save now r = r\<lparr>updated_at := now\<rparr>"

section \<open>Bulk actions (dispositivos/admin.py)\<close>

text \<open>
  \<open>queryset.update(field=value)\<close> is one UPDATE statement: it sets the named column, and
  no other, in every row of the table that the queryset's WHERE clause selects, and
  returns the number of rows selected. It does not call \<open>save()\<close>, so an \<open>auto_now\<close>
  field is not touched.
\<close>

definition update_rows :: "('r \<Rightarrow> 'r) \<Rightarrow> 'r queryset \<Rightarrow> database \<Rightarrow> 'r list \<Rightarrow> 'r list" where
  "update_rows f qs db rows = map (\<lambda>r. if qs db r then f r else r) rows"

definition Device_update_state :: "state \<Rightarrow> Device queryset \<Rightarrow> database \<Rightarrow> database \<times> nat" where
  "Device_update_state s qs db =
     (db\<lparr>devices := update_rows (\<lambda>d. d\<lparr>state := s\<rparr>) qs db (devices db)\<rparr>,
      count Device_model qs db)"

definition Alert_update_is_resolved ::
  "bool \<Rightarrow> Alert queryset \<Rightarrow> database \<Rightarrow> database \<times> nat" where
  "Alert_update_is_resolved b qs db =
     (db\<lparr>alerts := update_rows (\<lambda>a. a\<lparr>is_resolved := b\<rparr>) qs db (alerts db)\<rparr>,
      count Alert_model qs db)"

text \<open>\<open>str(n)\<close> of a count, as an f-string renders it.\<close>

function str_nat :: "nat \<Rightarrow> string" where
  "str_nat n =
     (if n < 10 then [''0123456789'' ! n]
      else str_nat (n div 10) @ [''0123456789'' ! (n mod 10)])"
  by pat_completeness auto
termination
  by (relation "measure id") auto

declare str_nat.simps [simp del]

text \<open>\<open>self.message_user(request, message, level)\<close>; the level defaults to INFO.\<close>

definition message_user :: "request \<Rightarrow> string \<Rightarrow> message_level \<Rightarrow> request" where
  "message_user req msg lvl = req\<lparr>messages := messages req @ [(lvl, msg)]\<rparr>"

definition mark_as_active :: "request \<Rightarrow> Device queryset \<Rightarrow> database \<Rightarrow> database \<times> request" where
  "mark_as_active req queryset db =
     (let (db', updated) = Device_update_state ACTIVE queryset db in
      (db', message_user req
              (str_nat updated @ '' dispositivos marcados como activos.'') INFO))"

definition mark_as_inactive :: "request \<Rightarrow> Device queryset \<Rightarrow> database \<Rightarrow> database \<times> request"
  where
  "mark_as_inactive req queryset db =
     (let (db', updated) = Device_update_state INACTIVE queryset db in
      (db', message_user req
              (str_nat updated @ '' dispositivos marcados como inactivos.'') INFO))"

text \<open>
  The warning text has one character outside ASCII, the a with acute accent (code point
  0xE1) of the Spanish word for maximum.
\<close>

definition generate_usage_report ::
  "request \<Rightarrow> Device queryset \<Rightarrow> database \<Rightarrow> database \<times> request" where
  "generate_usage_report req queryset db =
     (if count Device_model queryset db > 10 then
        (db, message_user req
               (''Solo se pueden generar reportes para m'' @ [CHR 0xE1]
                  @ ''ximo 10 dispositivos.'') WARNING)
      else
        (db, message_user req
               (''Reporte generado para '' @ str_nat (count Device_model queryset db)
                  @ '' dispositivos.'') INFO))"

definition mark_as_resolved :: "request \<Rightarrow> Alert queryset \<Rightarrow> database \<Rightarrow> database \<times> request"
  where
  "mark_as_resolved req queryset db =
     (let (db', updated) = Alert_update_is_resolved True queryset db in
      (db', message_user req
              (str_nat updated @ '' alertas marcadas como resueltas.'') INFO))"

definition mark_as_unresolved :: "request \<Rightarrow> Alert queryset \<Rightarrow> database \<Rightarrow> database \<times> request"
  where
  "mark_as_unresolved req queryset db =
     (let (db', updated) = Alert_update_is_resolved False queryset db in
      (db', message_user req
              (str_nat updated @ '' alertas marcadas como no resueltas.'') INFO))"

text \<open>
  How the framework runs an action of the changelist (\<open>ModelAdmin.response_action\<close>): with
  no row selected it warns and runs nothing; otherwise the action receives the admin's
  \<open>get_queryset(request)\<close> narrowed to the selected primary keys.
\<close>

definition response_action ::
  "(request \<Rightarrow> ('a BaseModel_scheme) queryset)
     \<Rightarrow> (request \<Rightarrow> ('a BaseModel_scheme) queryset \<Rightarrow> database \<Rightarrow> database \<times> request)
     \<Rightarrow> request \<Rightarrow> nat list \<Rightarrow> database \<Rightarrow> database \<times> request" where
  "response_action get_queryset func req selected db =
     (if selected = [] then
        (db, message_user req
               (''Items must be selected in order to perform actions on them. ''
                  @ ''No items have been changed.'') WARNING)
      else func req (qs_filter (get_queryset req) (\<lambda>db r. pk r \<in> set selected)) db)"

section \<open>The scoping policy as the specification words it\<close>

text \<open>
  The reference algorithm of the specification, written from its text and compared with
  \<open>get_queryset\<close> below. An entity kind carries its scoping strategy; the principal's
  global-administrator flag is the superuser flag. \<open>record_organization\<close> reads
  \<open>record.organization\<close> and \<open>record_device_organization\<close> reads
  \<open>record.device.organization\<close>.
\<close>

datatype scoping = NONE | DIRECT | INDIRECT

datatype entity_kind =
  Organization_kind | Category_kind | Zone_kind | Device_kind | Measurement_kind
  | Alert_kind | UserProfile_kind

fun scoping_of :: "entity_kind \<Rightarrow> scoping" where
  "scoping_of Device_kind = DIRECT"
| "scoping_of Measurement_kind = INDIRECT"
| "scoping_of Alert_kind = INDIRECT"
| "scoping_of Organization_kind = NONE"
| "scoping_of Category_kind = NONE"
| "scoping_of Zone_kind = NONE"
| "scoping_of UserProfile_kind = NONE"

definition visible_scope ::
  "request_user \<Rightarrow> scoping \<Rightarrow> ('r \<Rightarrow> nat option) \<Rightarrow> (database \<Rightarrow> 'r \<Rightarrow> nat option)
     \<Rightarrow> 'r queryset" where
  "visible_scope who strategy record_organization record_device_organization =
     (if is_superuser who then (\<lambda>db r. True)
      else
        (case profile who of
           None \<Rightarrow> (\<lambda>db r. False)
         | Some p \<Rightarrow>
             (case UserProfile.organization p of
                None \<Rightarrow> (\<lambda>db r. False)
              | Some org \<Rightarrow>
                  (case strategy of
                     DIRECT \<Rightarrow> (\<lambda>db r. record_organization r = Some org)
                   | INDIRECT \<Rightarrow> (\<lambda>db r. record_device_organization db r = Some org)
                   | NONE \<Rightarrow> (\<lambda>db r. True)))))"

section \<open>The scenario of the specification\<close>

text \<open>
  Organization A (key 1) owns device D1, organization B (key 2) owns device D2; each
  device has one measurement and one alert. A principal is a user who is not a superuser,
  with a profile of a given role and organization.
\<close>

definition scenario_user :: User where
  "scenario_user = \<lparr>username = ''p'', is_superuser = False\<rparr>"

definition scenario_profile :: "role \<Rightarrow> nat option \<Rightarrow> UserProfile" where
  "scenario_profile r org = UserProfile_create 1 0 scenario_user org (Some r) None None"

definition scenario_request :: "role \<Rightarrow> nat option \<Rightarrow> request" where
  "scenario_request r org =
     \<lparr>user = \<lparr>username = ''p'', is_superuser = False,
               profile = Some (scenario_profile r org)\<rparr>,
      messages = []\<rparr>"

definition D1 :: Device where
  "D1 = Device_create 1 0 ''D1'' 1 1 100 1 (Some INACTIVE)"

definition D2 :: Device where
  "D2 = Device_create 2 0 ''D2'' 1 1 100 2 (Some INACTIVE)"

definition scenario_db :: database where
  "scenario_db =
     \<lparr>categories = [Category_create 1 0 ''c'' None],
      zones = [Zone_create 1 0 ''z'' None],
      organizations =
        [Organization_create 1 0 ''A'' ''a@a'' None, Organization_create 2 0 ''B'' ''b@b'' None],
      devices = [D1, D2],
      measurements = [Measurement_create 1 0 1 5 None, Measurement_create 2 0 2 6 None],
      alerts =
        [Alert_create 1 0 1 ''hot'' None None None, Alert_create 2 0 2 ''cold'' None None None],
      user_profiles = [scenario_profile VIEWER (Some 1)]\<rparr>"

section \<open>Facts about the scope\<close>

lemmas model_defs = Category_model_def Zone_model_def Organization_model_def Device_model_def
  Measurement_model_def Alert_model_def UserProfile_model_def

lemmas admin_defs = CategoryAdmin_get_queryset_def ZoneAdmin_get_queryset_def
  OrganizationAdmin_get_queryset_def DeviceAdmin_get_queryset_def
  MeasurementAdmin_get_queryset_def AlertAdmin_get_queryset_def
  UserProfileAdmin_get_queryset_def

lemmas scenario_defs = scenario_db_def scenario_request_def scenario_profile_def
  scenario_user_def D1_def D2_def Category_create_def Zone_create_def Organization_create_def
  Device_create_def Measurement_create_def Alert_create_def UserProfile_create_def
  field_default_def

lemma filtered_direct:
  "organization_attr m = Some f \<Longrightarrow>
   OrganizationFilteredAdmin_get_queryset m req =
     visible_scope (request.user req) DIRECT f g"
  by (auto simp: OrganizationFilteredAdmin_get_queryset_def visible_scope_def
      ModelAdmin_get_queryset_def qs_all_def qs_none_def qs_filter_def Let_def
      split: option.splits)

lemma filtered_indirect:
  "organization_attr m = None \<Longrightarrow> device_attr m = Some h \<Longrightarrow>
   OrganizationFilteredAdmin_get_queryset m req =
     visible_scope (request.user req) INDIRECT f (\<lambda>db r. device__organization db (h r))"
  by (auto simp: OrganizationFilteredAdmin_get_queryset_def visible_scope_def
      ModelAdmin_get_queryset_def qs_all_def qs_none_def qs_filter_def Let_def
      split: option.splits)

lemma Device_scope:
  "DeviceAdmin_get_queryset req =
     visible_scope (request.user req) DIRECT (\<lambda>d. Some (Device.organization d)) g"
  unfolding DeviceAdmin_get_queryset_def
  by (rule filtered_direct) (simp add: Device_model_def)

lemma Measurement_scope:
  "MeasurementAdmin_get_queryset req =
     visible_scope (request.user req) INDIRECT f
       (\<lambda>db m. device__organization db (Measurement.device m))"
  unfolding MeasurementAdmin_get_queryset_def
  by (rule filtered_indirect) (simp_all add: Measurement_model_def)

lemma Alert_scope:
  "AlertAdmin_get_queryset req =
     visible_scope (request.user req) INDIRECT f
       (\<lambda>db a. device__organization db (Alert.device a))"
  unfolding AlertAdmin_get_queryset_def
  by (rule filtered_indirect) (simp_all add: Alert_model_def)

lemma master_data_unrestricted:
  "CategoryAdmin_get_queryset req db c"
  "ZoneAdmin_get_queryset req db z"
  "OrganizationAdmin_get_queryset req db og"
  "UserProfileAdmin_get_queryset req db up"
  by (simp_all add: admin_defs ModelAdmin_get_queryset_def qs_all_def)

text \<open>
  C1, as the specification states it, fails. The reference algorithm tests the principal
  before the kind, so for a kind without scoping it returns the empty predicate to a
  principal who is no superuser and has no profile. The admin classes of those kinds
  inherit the framework's queryset and show that principal every row: here the one
  category of the scenario.
\<close>

theorem master_data_scope_counterexample:
  "fetch Category_model
     (CategoryAdmin_get_queryset
        \<lparr>request.user = \<lparr>username = ''p'', is_superuser = False, profile = None\<rparr>,
         messages = []\<rparr>) scenario_db = [Category_create 1 0 ''c'' None]
   \<and> fetch Category_model
       (visible_scope \<lparr>username = ''p'', is_superuser = False, profile = None\<rparr>
          (scoping_of Category_kind) (\<lambda>c. None) (\<lambda>db c. None)) scenario_db = []"
  by (simp add: fetch_def Category_model_def scenario_db_def visible_scope_def
      CategoryAdmin_get_queryset_def ModelAdmin_get_queryset_def qs_all_def)

text \<open>
  C1, amended. For Device, Measurement and Alert the queryset of the admin class is the
  reference algorithm's predicate: unrestricted for a superuser, empty without a profile
  or with a null organization, else the rows of the principal's organization, read from
  the row (Device) or through its device (Measurement, Alert). For Category, Zone,
  Organization and UserProfile the queryset holds every row, whoever the principal is.
\<close>

theorem get_queryset_scope:
  "DeviceAdmin_get_queryset req =
     visible_scope (request.user req) (scoping_of Device_kind)
       (\<lambda>d. Some (Device.organization d)) g
   \<and> MeasurementAdmin_get_queryset req =
     visible_scope (request.user req) (scoping_of Measurement_kind) f
       (\<lambda>db m. device__organization db (Measurement.device m))
   \<and> AlertAdmin_get_queryset req =
     visible_scope (request.user req) (scoping_of Alert_kind) f'
       (\<lambda>db a. device__organization db (Alert.device a))
   \<and> CategoryAdmin_get_queryset req db c
   \<and> ZoneAdmin_get_queryset req db z
   \<and> OrganizationAdmin_get_queryset req db og
   \<and> UserProfileAdmin_get_queryset req db up"
  using Device_scope [of req g] Measurement_scope [of req f] Alert_scope [of req f']
  by (simp add: master_data_unrestricted)

theorem get_queryset_scope_witness:
  "fetch Device_model (DeviceAdmin_get_queryset (scenario_request VIEWER (Some 1))) scenario_db
     = [D1]
   \<and> fetch Measurement_model
       (MeasurementAdmin_get_queryset (scenario_request VIEWER (Some 1))) scenario_db
     = [Measurement_create 1 0 1 5 None]
   \<and> fetch Alert_model (AlertAdmin_get_queryset (scenario_request VIEWER (Some 1))) scenario_db
     = [Alert_create 1 0 1 ''hot'' None None None]
   \<and> fetch Category_model (CategoryAdmin_get_queryset (scenario_request VIEWER (Some 1)))
       scenario_db = [Category_create 1 0 ''c'' None]"
  using get_queryset_scope [of "scenario_request VIEWER (Some 1)" "\<lambda>db d. None"
      "\<lambda>m. None" "\<lambda>a. None" scenario_db "Category_create 1 0 ''c'' None"]
  by (simp add: fetch_def model_defs visible_scope_def device__organization_def scenario_defs)

text \<open>
  C2. A principal who is no superuser and has no profile, or whose profile has a null
  organization, sees no device, no measurement and no alert: the queryset of each of
  the three filtered admin classes selects nothing, in every database.
\<close>

theorem no_organization_fail_closed:
  assumes "\<not> is_superuser (request.user req)"
    and "profile (request.user req) = None
         \<or> (\<exists>p. profile (request.user req) = Some p \<and> UserProfile.organization p = None)"
  shows "fetch Device_model (DeviceAdmin_get_queryset req) db = []
         \<and> fetch Measurement_model (MeasurementAdmin_get_queryset req) db = []
         \<and> fetch Alert_model (AlertAdmin_get_queryset req) db = []"
  using assms
  by (auto simp: fetch_def Device_scope [of req "\<lambda>db d. None"]
      Measurement_scope [of req "\<lambda>m. None"] Alert_scope [of req "\<lambda>a. None"]
      visible_scope_def)

theorem no_organization_fail_closed_witness:
  "\<not> is_superuser (request.user (scenario_request VIEWER None))
   \<and> (\<exists>p. profile (request.user (scenario_request VIEWER None)) = Some p
          \<and> UserProfile.organization p = None)
   \<and> fetch Device_model (DeviceAdmin_get_queryset (scenario_request VIEWER None)) scenario_db
       = []
   \<and> fetch Measurement_model (MeasurementAdmin_get_queryset (scenario_request VIEWER None))
       scenario_db = []
   \<and> fetch Alert_model (AlertAdmin_get_queryset (scenario_request VIEWER None)) scenario_db
       = []"
proof -
  have a: "\<not> is_superuser (request.user (scenario_request VIEWER None))"
    by (simp add: scenario_request_def)
  have b: "\<exists>p. profile (request.user (scenario_request VIEWER None)) = Some p
              \<and> UserProfile.organization p = None"
    by (simp add: scenario_request_def scenario_profile_def UserProfile_create_def)
  from b have c: "profile (request.user (scenario_request VIEWER None)) = None
      \<or> (\<exists>p. profile (request.user (scenario_request VIEWER None)) = Some p
            \<and> UserProfile.organization p = None)" ..
  show ?thesis using a b no_organization_fail_closed [OF a c, of scenario_db] by simp
qed

section \<open>Facts about the bulk actions\<close>

lemma update_rows_frame:
  "list_all2 (\<lambda>old new. \<not> scope db old \<longrightarrow> new = old) rows
     (update_rows f (qs_filter scope sel) db rows)"
  by (simp add: update_rows_def qs_filter_def list_all2_map2 list.rel_refl)

lemma list_all2_frame_refl: "list_all2 (\<lambda>old new. \<not> P old \<longrightarrow> new = old) rows rows"
  by (simp add: list.rel_refl)

lemma Device_update_state_frame:
  "\<exists>devs. fst (Device_update_state s (qs_filter scope sel) db) = db\<lparr>devices := devs\<rparr>
      \<and> list_all2 (\<lambda>old new. \<not> scope db old \<longrightarrow> new = old) (devices db) devs"
  by (auto simp: Device_update_state_def intro: update_rows_frame)

lemma Alert_update_is_resolved_frame:
  "\<exists>als. fst (Alert_update_is_resolved b (qs_filter scope sel) db) = db\<lparr>alerts := als\<rparr>
      \<and> list_all2 (\<lambda>old new. \<not> scope db old \<longrightarrow> new = old) (alerts db) als"
  by (auto simp: Alert_update_is_resolved_def intro: update_rows_frame)

lemma no_selection_devices:
  "\<exists>devs. db = db\<lparr>devices := devs\<rparr>
      \<and> list_all2 (\<lambda>old new. \<not> P old \<longrightarrow> new = old) (devices db) devs"
proof -
  have "db = db\<lparr>devices := devices db\<rparr>" by simp
  then show ?thesis using list_all2_frame_refl by blast
qed

lemma no_selection_alerts:
  "\<exists>als. db = db\<lparr>alerts := als\<rparr>
      \<and> list_all2 (\<lambda>old new. \<not> P old \<longrightarrow> new = old) (alerts db) als"
proof -
  have "db = db\<lparr>alerts := alerts db\<rparr>" by simp
  then show ?thesis using list_all2_frame_refl by blast
qed

lemma fst_mark_as_active:
  "fst (mark_as_active req qs db) = fst (Device_update_state ACTIVE qs db)"
  by (simp add: mark_as_active_def split_beta)

lemma fst_mark_as_inactive:
  "fst (mark_as_inactive req qs db) = fst (Device_update_state INACTIVE qs db)"
  by (simp add: mark_as_inactive_def split_beta)

lemma fst_mark_as_resolved:
  "fst (mark_as_resolved req qs db) = fst (Alert_update_is_resolved True qs db)"
  by (simp add: mark_as_resolved_def split_beta)

lemma fst_mark_as_unresolved:
  "fst (mark_as_unresolved req qs db) = fst (Alert_update_is_resolved False qs db)"
  by (simp add: mark_as_unresolved_def split_beta)

lemma mark_as_active_frame:
  "\<exists>devs. fst (response_action DeviceAdmin_get_queryset mark_as_active req ids db)
             = db\<lparr>devices := devs\<rparr>
      \<and> list_all2 (\<lambda>old new. \<not> DeviceAdmin_get_queryset req db old \<longrightarrow> new = old)
          (devices db) devs"
proof (cases "ids = []")
  case True
  then show ?thesis
    using no_selection_devices [of db "DeviceAdmin_get_queryset req db"]
    by (simp add: response_action_def)
next
  case False
  then show ?thesis
    using Device_update_state_frame [of ACTIVE "DeviceAdmin_get_queryset req" _ db]
    by (simp add: response_action_def fst_mark_as_active)
qed

lemma mark_as_inactive_frame:
  "\<exists>devs. fst (response_action DeviceAdmin_get_queryset mark_as_inactive req ids db)
             = db\<lparr>devices := devs\<rparr>
      \<and> list_all2 (\<lambda>old new. \<not> DeviceAdmin_get_queryset req db old \<longrightarrow> new = old)
          (devices db) devs"
proof (cases "ids = []")
  case True
  then show ?thesis
    using no_selection_devices [of db "DeviceAdmin_get_queryset req db"]
    by (simp add: response_action_def)
next
  case False
  then show ?thesis
    using Device_update_state_frame [of INACTIVE "DeviceAdmin_get_queryset req" _ db]
    by (simp add: response_action_def fst_mark_as_inactive)
qed

lemma mark_as_resolved_frame:
  "\<exists>als. fst (response_action AlertAdmin_get_queryset mark_as_resolved req ids db)
             = db\<lparr>alerts := als\<rparr>
      \<and> list_all2 (\<lambda>old new. \<not> AlertAdmin_get_queryset req db old \<longrightarrow> new = old)
          (alerts db) als"
proof (cases "ids = []")
  case True
  then show ?thesis
    using no_selection_alerts [of db "AlertAdmin_get_queryset req db"]
    by (simp add: response_action_def)
next
  case False
  then show ?thesis
    using Alert_update_is_resolved_frame [of True "AlertAdmin_get_queryset req" _ db]
    by (simp add: response_action_def fst_mark_as_resolved)
qed

lemma mark_as_unresolved_frame:
  "\<exists>als. fst (response_action AlertAdmin_get_queryset mark_as_unresolved req ids db)
             = db\<lparr>alerts := als\<rparr>
      \<and> list_all2 (\<lambda>old new. \<not> AlertAdmin_get_queryset req db old \<longrightarrow> new = old)
          (alerts db) als"
proof (cases "ids = []")
  case True
  then show ?thesis
    using no_selection_alerts [of db "AlertAdmin_get_queryset req db"]
    by (simp add: response_action_def)
next
  case False
  then show ?thesis
    using Alert_update_is_resolved_frame [of False "AlertAdmin_get_queryset req" _ db]
    by (simp add: response_action_def fst_mark_as_unresolved)
qed

text \<open>
  C3. Run from the changelist by any principal on any selection of primary keys, each of
  the four mutating actions changes one table only, and in that table leaves every row
  outside the principal's queryset as it was. In the scenario the viewer of organization
  A lists D1 only, and \<open>mark_as_active\<close> on the key of D2 leaves D2 inactive.
\<close>

theorem out_of_scope_never_mutated:
  "(\<exists>devs. fst (response_action DeviceAdmin_get_queryset mark_as_active req ids db)
             = db\<lparr>devices := devs\<rparr>
      \<and> list_all2 (\<lambda>old new. \<not> DeviceAdmin_get_queryset req db old \<longrightarrow> new = old)
          (devices db) devs)
   \<and> (\<exists>devs. fst (response_action DeviceAdmin_get_queryset mark_as_inactive req ids db)
             = db\<lparr>devices := devs\<rparr>
      \<and> list_all2 (\<lambda>old new. \<not> DeviceAdmin_get_queryset req db old \<longrightarrow> new = old)
          (devices db) devs)
   \<and> (\<exists>als. fst (response_action AlertAdmin_get_queryset mark_as_resolved req ids db)
             = db\<lparr>alerts := als\<rparr>
      \<and> list_all2 (\<lambda>old new. \<not> AlertAdmin_get_queryset req db old \<longrightarrow> new = old)
          (alerts db) als)
   \<and> (\<exists>als. fst (response_action AlertAdmin_get_queryset mark_as_unresolved req ids db)
             = db\<lparr>alerts := als\<rparr>
      \<and> list_all2 (\<lambda>old new. \<not> AlertAdmin_get_queryset req db old \<longrightarrow> new = old)
          (alerts db) als)"
  using mark_as_active_frame mark_as_inactive_frame mark_as_resolved_frame
    mark_as_unresolved_frame
  by blast

lemma scenario_P_D2_out_of_scope:
  "\<not> DeviceAdmin_get_queryset (scenario_request VIEWER (Some 1)) scenario_db D2"
  by (simp add: Device_scope [of _ "\<lambda>db d. None"] visible_scope_def scenario_defs)

lemma scenario_devices: "devices scenario_db = [D1, D2]"
  by (simp add: scenario_db_def)

theorem out_of_scope_never_mutated_witness:
  "fetch Device_model (DeviceAdmin_get_queryset (scenario_request VIEWER (Some 1))) scenario_db
     = [D1]
   \<and> \<not> DeviceAdmin_get_queryset (scenario_request VIEWER (Some 1)) scenario_db D2
   \<and> state D2 = INACTIVE
   \<and> devices (fst (response_action DeviceAdmin_get_queryset mark_as_active
                     (scenario_request VIEWER (Some 1)) [pk D2] scenario_db)) ! 1 = D2"
proof -
  from out_of_scope_never_mutated
    [of "scenario_request VIEWER (Some 1)" "[pk D2]" scenario_db]
  obtain devs where
    d: "fst (response_action DeviceAdmin_get_queryset mark_as_active
               (scenario_request VIEWER (Some 1)) [pk D2] scenario_db)
          = scenario_db\<lparr>devices := devs\<rparr>"
    and f: "list_all2 (\<lambda>old new. \<not> DeviceAdmin_get_queryset
               (scenario_request VIEWER (Some 1)) scenario_db old \<longrightarrow> new = old)
             (devices scenario_db) devs"
    by blast
  from f have "\<not> DeviceAdmin_get_queryset (scenario_request VIEWER (Some 1)) scenario_db
                 (devices scenario_db ! 1) \<longrightarrow> devs ! 1 = devices scenario_db ! 1"
    by (rule list_all2_nthD) (simp add: scenario_devices)
  then have "devs ! 1 = D2"
    using scenario_P_D2_out_of_scope by (simp add: scenario_devices)
  moreover have "fetch Device_model
      (DeviceAdmin_get_queryset (scenario_request VIEWER (Some 1))) scenario_db = [D1]"
    by (simp add: fetch_def model_defs Device_scope [of _ "\<lambda>db d. None"] visible_scope_def
        scenario_defs)
  moreover have "state D2 = INACTIVE"
    by (simp add: scenario_defs)
  ultimately show ?thesis
    using d scenario_P_D2_out_of_scope by simp
qed

lemma Device_selection_indep:
  "qs_filter (DeviceAdmin_get_queryset req) (\<lambda>db r. pk r \<in> set ids) db' (d\<lparr>state := s\<rparr>)
     = qs_filter (DeviceAdmin_get_queryset req) (\<lambda>db r. pk r \<in> set ids) db d"
  by (simp add: qs_filter_def Device_scope [of req "\<lambda>db d. None"] visible_scope_def
      split: option.splits)

lemma Device_selection_indep_db:
  "qs_filter (DeviceAdmin_get_queryset req) (\<lambda>db r. pk r \<in> set ids) db' d
     = qs_filter (DeviceAdmin_get_queryset req) (\<lambda>db r. pk r \<in> set ids) db d"
  by (simp add: qs_filter_def Device_scope [of req "\<lambda>db d. None"] visible_scope_def
      split: option.splits)

lemma update_rows_twice:
  assumes "\<And>r. qs db' (f r) = qs db r" and "\<And>r. qs db' r = qs db r"
    and "\<And>r. f (f r) = f r"
  shows "update_rows f qs db' (update_rows f qs db rows) = update_rows f qs db rows"
  using assms by (simp add: update_rows_def)

lemma filter_update_rows_length:
  assumes "\<And>r. qs db' (f r) = qs db r" and "\<And>r. qs db' r = qs db r"
  shows "length (filter (qs db') (update_rows f qs db rows)) = length (filter (qs db) rows)"
  using assms by (induction rows) (simp_all add: update_rows_def)

lemma Device_update_state_twice:
  assumes "\<And>db db' d s. qs db' (d\<lparr>state := s\<rparr>) = qs db d"
    and "\<And>db db' d. qs db' d = qs db d"
  shows "Device_update_state s qs (fst (Device_update_state s qs db))
           = Device_update_state s qs db"
proof -
  let ?f = "\<lambda>d::Device. d\<lparr>state := s\<rparr>"
  let ?db1 = "db\<lparr>devices := update_rows ?f qs db (devices db)\<rparr>"
  have rows: "update_rows ?f qs ?db1 (update_rows ?f qs db (devices db))
                = update_rows ?f qs db (devices db)"
    by (rule update_rows_twice) (simp_all add: assms)
  have cnt: "length (filter (qs ?db1) (update_rows ?f qs db (devices db)))
               = length (filter (qs db) (devices db))"
    by (rule filter_update_rows_length) (simp_all add: assms)
  show ?thesis
    using rows cnt
    by (simp add: Device_update_state_def count_def fetch_def Device_model_def)
qed

lemma selected_count_positive:
  assumes "ids \<noteq> []"
    and "\<forall>i\<in>set ids. \<exists>d\<in>set (devices db). pk d = i \<and> DeviceAdmin_get_queryset req db d"
  shows "0 < count Device_model
               (qs_filter (DeviceAdmin_get_queryset req) (\<lambda>db r. pk r \<in> set ids)) db"
proof -
  from assms(1) obtain i where i: "i \<in> set ids" by (cases ids) auto
  with assms(2) obtain d where "d \<in> set (devices db)" "pk d = i"
    "DeviceAdmin_get_queryset req db d" by blast
  with i have "d \<in> set (filter
      (qs_filter (DeviceAdmin_get_queryset req) (\<lambda>db r. pk r \<in> set ids) db) (devices db))"
    by (simp add: qs_filter_def)
  then have "filter (qs_filter (DeviceAdmin_get_queryset req) (\<lambda>db r. pk r \<in> set ids) db)
               (devices db) \<noteq> []"
    by (metis empty_iff empty_set)
  then show ?thesis
    by (simp add: count_def fetch_def Device_model_def)
qed

lemma updated_rows_state:
  assumes "d \<in> set (update_rows (\<lambda>d::Device. d\<lparr>state := s\<rparr>) qs db rows)"
    and "qs db' d"
    and "\<And>db db' d s. qs db' (d\<lparr>state := s\<rparr>) = qs db d"
    and "\<And>db db' d. qs db' d = qs db d"
  shows "state d = s"
proof -
  from assms(1) obtain r where r: "r \<in> set rows"
    and d: "d = (if qs db r then r\<lparr>state := s\<rparr> else r)"
    by (auto simp: update_rows_def)
  show ?thesis
  proof (cases "qs db r")
    case True
    with d show ?thesis by simp
  next
    case False
    with d have "d = r" by simp
    with assms(2) assms(4) [of db' r db] False show ?thesis by simp
  qed
qed

lemma Device_action_idempotent:
  assumes ne: "ids \<noteq> []"
    and sc: "\<forall>i\<in>set ids. \<exists>d\<in>set (devices db). pk d = i \<and> DeviceAdmin_get_queryset req db d"
    and act: "\<And>r q b. act r q b =
         (fst (Device_update_state s q b),
          message_user r (str_nat (snd (Device_update_state s q b)) @ txt) INFO)"
  shows "(let run = response_action DeviceAdmin_get_queryset act req ids;
              once = run db;
              twice = run (fst once);
              n = count Device_model
                    (qs_filter (DeviceAdmin_get_queryset req) (\<lambda>db r. pk r \<in> set ids)) db
          in twice = once \<and> 0 < n
             \<and> messages (snd once) = messages req @ [(INFO, str_nat n @ txt)]
             \<and> (\<forall>d\<in>set (devices (fst once)).
                   pk d \<in> set ids \<and> DeviceAdmin_get_queryset req (fst once) d
                     \<longrightarrow> state d = s))"
proof -
  let ?qs = "qs_filter (DeviceAdmin_get_queryset req) (\<lambda>db r. pk r \<in> set ids)"
  let ?once = "response_action DeviceAdmin_get_queryset act req ids db"
  have once: "?once = (fst (Device_update_state s ?qs db),
      message_user req (str_nat (snd (Device_update_state s ?qs db)) @ txt) INFO)"
    using ne by (simp add: response_action_def act)
  have twice_db: "Device_update_state s ?qs (fst (Device_update_state s ?qs db))
                    = Device_update_state s ?qs db"
    by (rule Device_update_state_twice)
      (simp_all add: Device_selection_indep Device_selection_indep_db [of req ids])
  have twice: "response_action DeviceAdmin_get_queryset act req ids (fst ?once) = ?once"
    using ne by (simp add: response_action_def act once twice_db)
  have n: "snd (Device_update_state s ?qs db) = count Device_model ?qs db"
    by (simp add: Device_update_state_def)
  have pos: "0 < count Device_model ?qs db"
    using ne sc by (rule selected_count_positive)
  have msgs: "messages (snd ?once) = messages req @ [(INFO, str_nat (count Device_model ?qs db) @ txt)]"
    by (simp add: once n message_user_def)
  have st: "\<forall>d\<in>set (devices (fst ?once)).
              pk d \<in> set ids \<and> DeviceAdmin_get_queryset req (fst ?once) d \<longrightarrow> state d = s"
  proof (intro ballI impI)
    fix d
    assume d: "d \<in> set (devices (fst ?once))"
      and sel: "pk d \<in> set ids \<and> DeviceAdmin_get_queryset req (fst ?once) d"
    from d have "d \<in> set (update_rows (\<lambda>d::Device. d\<lparr>state := s\<rparr>) ?qs db (devices db))"
      by (simp add: once Device_update_state_def)
    moreover from sel have "?qs (fst ?once) d" by (simp add: qs_filter_def)
    ultimately show "state d = s"
      by (rule updated_rows_state)
        (simp_all add: Device_selection_indep Device_selection_indep_db [of req ids])
  qed
  show ?thesis
    using twice pos msgs st by (simp add: Let_def)
qed

text \<open>
  C7. On a selection that is not empty and whose keys all name devices in the principal's
  queryset, running \<open>mark_as_active\<close> a second time gives the same database and the same
  message as the first run: the same count, which is not zero, and every selected device
  in scope is ACTIVE. Likewise \<open>mark_as_inactive\<close> with INACTIVE.
\<close>

theorem mark_as_active_inactive_idempotent:
  assumes "ids \<noteq> []"
    and "\<forall>i\<in>set ids. \<exists>d\<in>set (devices db). pk d = i \<and> DeviceAdmin_get_queryset req db d"
  shows "(let run = response_action DeviceAdmin_get_queryset mark_as_active req ids;
              once = run db;
              twice = run (fst once);
              n = count Device_model
                    (qs_filter (DeviceAdmin_get_queryset req) (\<lambda>db r. pk r \<in> set ids)) db
          in twice = once \<and> 0 < n
             \<and> messages (snd once)
                 = messages req @ [(INFO, str_nat n @ '' dispositivos marcados como activos.'')]
             \<and> (\<forall>d\<in>set (devices (fst once)).
                   pk d \<in> set ids \<and> DeviceAdmin_get_queryset req (fst once) d
                     \<longrightarrow> state d = ACTIVE))
       \<and> (let run = response_action DeviceAdmin_get_queryset mark_as_inactive req ids;
              once = run db;
              twice = run (fst once);
              n = count Device_model
                    (qs_filter (DeviceAdmin_get_queryset req) (\<lambda>db r. pk r \<in> set ids)) db
          in twice = once \<and> 0 < n
             \<and> messages (snd once)
                 = messages req
                     @ [(INFO, str_nat n @ '' dispositivos marcados como inactivos.'')]
             \<and> (\<forall>d\<in>set (devices (fst once)).
                   pk d \<in> set ids \<and> DeviceAdmin_get_queryset req (fst once) d
                     \<longrightarrow> state d = INACTIVE))"
proof (rule conjI)
  show "let run = response_action DeviceAdmin_get_queryset mark_as_active req ids;
              once = run db;
              twice = run (fst once);
              n = count Device_model
                    (qs_filter (DeviceAdmin_get_queryset req) (\<lambda>db r. pk r \<in> set ids)) db
          in twice = once \<and> 0 < n
             \<and> messages (snd once)
                 = messages req @ [(INFO, str_nat n @ '' dispositivos marcados como activos.'')]
             \<and> (\<forall>d\<in>set (devices (fst once)).
                   pk d \<in> set ids \<and> DeviceAdmin_get_queryset req (fst once) d
                     \<longrightarrow> state d = ACTIVE)"
    using assms by (rule Device_action_idempotent) (simp add: mark_as_active_def split_beta)
  show "let run = response_action DeviceAdmin_get_queryset mark_as_inactive req ids;
              once = run db;
              twice = run (fst once);
              n = count Device_model
                    (qs_filter (DeviceAdmin_get_queryset req) (\<lambda>db r. pk r \<in> set ids)) db
          in twice = once \<and> 0 < n
             \<and> messages (snd once)
                 = messages req
                     @ [(INFO, str_nat n @ '' dispositivos marcados como inactivos.'')]
             \<and> (\<forall>d\<in>set (devices (fst once)).
                   pk d \<in> set ids \<and> DeviceAdmin_get_queryset req (fst once) d
                     \<longrightarrow> state d = INACTIVE)"
    using assms by (rule Device_action_idempotent) (simp add: mark_as_inactive_def split_beta)
qed

theorem mark_as_active_inactive_idempotent_witness:
  "[pk D1] \<noteq> []
   \<and> D1 \<in> set (devices scenario_db)
   \<and> DeviceAdmin_get_queryset (scenario_request OPERATOR (Some 1)) scenario_db D1
   \<and> response_action DeviceAdmin_get_queryset mark_as_active
         (scenario_request OPERATOR (Some 1)) [pk D1]
         (fst (response_action DeviceAdmin_get_queryset mark_as_active
                 (scenario_request OPERATOR (Some 1)) [pk D1] scenario_db))
       = response_action DeviceAdmin_get_queryset mark_as_active
           (scenario_request OPERATOR (Some 1)) [pk D1] scenario_db
   \<and> devices (fst (response_action DeviceAdmin_get_queryset mark_as_active
                     (scenario_request OPERATOR (Some 1)) [pk D1] scenario_db))
       = [D1\<lparr>state := ACTIVE\<rparr>, D2]
   \<and> messages (snd (response_action DeviceAdmin_get_queryset mark_as_active
                       (scenario_request OPERATOR (Some 1)) [pk D1] scenario_db))
       = [(INFO, ''1 dispositivos marcados como activos.'')]"
proof -
  have a: "[pk D1] \<noteq> []" by simp
  have b: "\<forall>i\<in>set [pk D1]. \<exists>d\<in>set (devices scenario_db). pk d = i
          \<and> DeviceAdmin_get_queryset (scenario_request OPERATOR (Some 1)) scenario_db d"
    by (simp add: Device_scope [of _ "\<lambda>db d. None"] visible_scope_def scenario_defs)
  have c: "count Device_model
             (qs_filter (DeviceAdmin_get_queryset (scenario_request OPERATOR (Some 1)))
                (\<lambda>db r. pk r \<in> set [pk D1])) scenario_db = 1"
    by (simp add: count_def fetch_def qs_filter_def Device_model_def
        Device_scope [of _ "\<lambda>db d. None"] visible_scope_def scenario_defs)
  have d: "devices (fst (response_action DeviceAdmin_get_queryset mark_as_active
                     (scenario_request OPERATOR (Some 1)) [pk D1] scenario_db))
       = [D1\<lparr>state := ACTIVE\<rparr>, D2]"
    by (simp add: response_action_def mark_as_active_def Device_update_state_def
        update_rows_def split_beta qs_filter_def Device_scope [of _ "\<lambda>db d. None"]
        visible_scope_def scenario_defs)
  have e: "messages (scenario_request OPERATOR (Some 1)) = []"
    by (simp add: scenario_request_def)
  have f: "str_nat 1 = ''1''"
    by (simp add: str_nat.simps)
  note idem = mark_as_active_inactive_idempotent [OF a b]
  have t: "response_action DeviceAdmin_get_queryset mark_as_active
         (scenario_request OPERATOR (Some 1)) [pk D1]
         (fst (response_action DeviceAdmin_get_queryset mark_as_active
                 (scenario_request OPERATOR (Some 1)) [pk D1] scenario_db))
       = response_action DeviceAdmin_get_queryset mark_as_active
           (scenario_request OPERATOR (Some 1)) [pk D1] scenario_db"
    using idem unfolding Let_def by blast
  have m: "messages (snd (response_action DeviceAdmin_get_queryset mark_as_active
                       (scenario_request OPERATOR (Some 1)) [pk D1] scenario_db))
       = messages (scenario_request OPERATOR (Some 1))
           @ [(INFO, str_nat (count Device_model
                (qs_filter (DeviceAdmin_get_queryset (scenario_request OPERATOR (Some 1)))
                   (\<lambda>db r. pk r \<in> set [pk D1])) scenario_db)
                @ '' dispositivos marcados como activos.'')]"
    using idem unfolding Let_def by blast
  have m': "messages (snd (response_action DeviceAdmin_get_queryset mark_as_active
                       (scenario_request OPERATOR (Some 1)) [pk D1] scenario_db))
       = [(INFO, ''1 dispositivos marcados como activos.'')]"
    unfolding m c e f by simp
  have g: "D1 \<in> set (devices scenario_db)"
    by (simp add: scenario_db_def)
  have h: "DeviceAdmin_get_queryset (scenario_request OPERATOR (Some 1)) scenario_db D1"
    by (simp add: Device_scope [of _ "\<lambda>db d. None"] visible_scope_def scenario_defs)
  from a g h t d m' show ?thesis by blast
qed

section \<open>Soft deletion, the report cap, roles and defaults\<close>

text \<open>
  C5, as the specification states it, fails: nothing in the source filters on
  \<open>deleted_at\<close>. With D1 soft-deleted, the viewer of organization A still lists it, and
  \<open>mark_as_active\<close> on its key still sets its state.
\<close>

theorem soft_deleted_visible_counterexample:
  "deleted_at (D1\<lparr>deleted_at := Some 7\<rparr>) = Some 7
   \<and> fetch Device_model (DeviceAdmin_get_queryset (scenario_request VIEWER (Some 1)))
       (scenario_db\<lparr>devices := [D1\<lparr>deleted_at := Some 7\<rparr>, D2]\<rparr>)
     = [D1\<lparr>deleted_at := Some 7\<rparr>]
   \<and> devices (fst (response_action DeviceAdmin_get_queryset mark_as_active
                     (scenario_request VIEWER (Some 1)) [1]
                     (scenario_db\<lparr>devices := [D1\<lparr>deleted_at := Some 7\<rparr>, D2]\<rparr>)))
     = [D1\<lparr>deleted_at := Some 7, state := ACTIVE\<rparr>, D2]"
  by (simp add: fetch_def Device_model_def response_action_def mark_as_active_def
      Device_update_state_def update_rows_def split_beta qs_filter_def
      Device_scope [of _ "\<lambda>db d. None"] visible_scope_def scenario_defs)

text \<open>
  C5, amended. Whether a record is in the visible scope does not depend on its
  \<open>deleted_at\<close>: for every principal and every kind, a record with \<open>deleted_at\<close> set is
  in the queryset exactly when the same record with any other \<open>deleted_at\<close> is.
\<close>

theorem scope_ignores_deleted_at:
  "DeviceAdmin_get_queryset req db (d\<lparr>deleted_at := x\<rparr>) = DeviceAdmin_get_queryset req db d
   \<and> MeasurementAdmin_get_queryset req db (m\<lparr>deleted_at := x\<rparr>)
       = MeasurementAdmin_get_queryset req db m
   \<and> AlertAdmin_get_queryset req db (a\<lparr>deleted_at := x\<rparr>) = AlertAdmin_get_queryset req db a
   \<and> CategoryAdmin_get_queryset req db (c\<lparr>deleted_at := x\<rparr>)
       = CategoryAdmin_get_queryset req db c
   \<and> ZoneAdmin_get_queryset req db (z\<lparr>deleted_at := x\<rparr>) = ZoneAdmin_get_queryset req db z
   \<and> OrganizationAdmin_get_queryset req db (og\<lparr>deleted_at := x\<rparr>)
       = OrganizationAdmin_get_queryset req db og
   \<and> UserProfileAdmin_get_queryset req db (up\<lparr>deleted_at := x\<rparr>)
       = UserProfileAdmin_get_queryset req db up"
  by (simp add: Device_scope [of req "\<lambda>db d. None"] Measurement_scope [of req "\<lambda>m. None"]
      Alert_scope [of req "\<lambda>a. None"] master_data_unrestricted visible_scope_def
      split: option.splits)

theorem scope_ignores_deleted_at_witness:
  "DeviceAdmin_get_queryset (scenario_request VIEWER (Some 1)) scenario_db D1
   \<and> DeviceAdmin_get_queryset (scenario_request VIEWER (Some 1)) scenario_db
       (D1\<lparr>deleted_at := Some 7\<rparr>)"
proof -
  have "DeviceAdmin_get_queryset (scenario_request VIEWER (Some 1)) scenario_db D1"
    by (simp add: Device_scope [of _ "\<lambda>db d. None"] visible_scope_def scenario_defs)
  then show ?thesis
    using scope_ignores_deleted_at [where req = "scenario_request VIEWER (Some 1)"
        and db = scenario_db and d = D1 and x = "Some 7"]
    by simp
qed

text \<open>
  C6. \<open>generate_usage_report\<close> on a queryset of more than 10 devices adds one message, the
  warning, and nothing else: the database is unchanged and no report message is added.
  On 10 devices or fewer it adds the message that reports the count.
\<close>

theorem generate_usage_report_cap:
  "(10 < count Device_model qs db \<longrightarrow>
      generate_usage_report req qs db =
        (db, req\<lparr>messages := messages req
               @ [(WARNING, ''Solo se pueden generar reportes para m'' @ [CHR 0xE1]
                              @ ''ximo 10 dispositivos.'')]\<rparr>))
   \<and> (count Device_model qs db \<le> 10 \<longrightarrow>
      generate_usage_report req qs db =
        (db, req\<lparr>messages := messages req
               @ [(INFO, ''Reporte generado para '' @ str_nat (count Device_model qs db)
                           @ '' dispositivos.'')]\<rparr>))"
  by (simp add: generate_usage_report_def message_user_def)

theorem generate_usage_report_cap_witness:
  "count Device_model (DeviceAdmin_get_queryset (scenario_request VIEWER (Some 1)))
     (scenario_db\<lparr>devices :=
        map (\<lambda>i. Device_create i 0 ''d'' 1 1 100 1 None) [1, 2, 3, 4, 5, 6, 7, 8, 9, 10, 11]\<rparr>)
     = 11
   \<and> messages (snd (generate_usage_report (scenario_request VIEWER (Some 1))
        (DeviceAdmin_get_queryset (scenario_request VIEWER (Some 1)))
        (scenario_db\<lparr>devices :=
           map (\<lambda>i. Device_create i 0 ''d'' 1 1 100 1 None)
             [1, 2, 3, 4, 5, 6, 7, 8, 9, 10, 11]\<rparr>)))
     = [(WARNING, ''Solo se pueden generar reportes para m'' @ [CHR 0xE1]
                    @ ''ximo 10 dispositivos.'')]
   \<and> count Device_model (DeviceAdmin_get_queryset (scenario_request VIEWER (Some 1)))
       scenario_db = 1
   \<and> generate_usage_report (scenario_request VIEWER (Some 1))
        (DeviceAdmin_get_queryset (scenario_request VIEWER (Some 1))) scenario_db
     = (scenario_db,
        (scenario_request VIEWER (Some 1))
          \<lparr>messages := [(INFO, ''Reporte generado para 1 dispositivos.'')]\<rparr>)"
proof -
  let ?req = "scenario_request VIEWER (Some 1)"
  let ?big = "scenario_db\<lparr>devices :=
        map (\<lambda>i. Device_create i 0 ''d'' 1 1 100 1 None) [1, 2, 3, 4, 5, 6, 7, 8, 9, 10, 11]\<rparr>"
  have big: "count Device_model (DeviceAdmin_get_queryset ?req) ?big = 11"
    by (simp add: count_def fetch_def Device_model_def Device_scope [of _ "\<lambda>db d. None"]
        visible_scope_def scenario_defs)
  have small: "count Device_model (DeviceAdmin_get_queryset ?req) scenario_db = 1"
    by (simp add: count_def fetch_def Device_model_def Device_scope [of _ "\<lambda>db d. None"]
        visible_scope_def scenario_defs)
  have e: "messages ?req = []"
    by (simp add: scenario_request_def)
  have f: "str_nat 1 = ''1''"
    by (simp add: str_nat.simps)
  note cap1 = generate_usage_report_cap [of "DeviceAdmin_get_queryset ?req" ?big ?req]
  note cap2 = generate_usage_report_cap [of "DeviceAdmin_get_queryset ?req" scenario_db ?req]
  have w: "messages (snd (generate_usage_report ?req (DeviceAdmin_get_queryset ?req) ?big))
     = [(WARNING, ''Solo se pueden generar reportes para m'' @ [CHR 0xE1]
                    @ ''ximo 10 dispositivos.'')]"
    using cap1 unfolding big e by simp
  have i: "generate_usage_report ?req (DeviceAdmin_get_queryset ?req) scenario_db
     = (scenario_db, ?req\<lparr>messages := [(INFO, ''Reporte generado para 1 dispositivos.'')]\<rparr>)"
    using cap2 unfolding small e f by simp
  from big w small i show ?thesis by blast
qed

lemma filtered_role_indep:
  "OrganizationFilteredAdmin_get_queryset m
       \<lparr>request.user = u\<lparr>profile := Some (p\<lparr>role := r1\<rparr>)\<rparr>, messages = ms\<rparr>
     = OrganizationFilteredAdmin_get_queryset m
         \<lparr>request.user = u\<lparr>profile := Some (p\<lparr>role := r2\<rparr>)\<rparr>, messages = ms\<rparr>"
  by (simp add: OrganizationFilteredAdmin_get_queryset_def ModelAdmin_get_queryset_def)

text \<open>
  C9. \<open>can_view_all_organizations\<close> is true exactly for a superuser's profile or the role
  ADMIN. The queryset of the filtered admin classes does not read the role: two requests
  that differ in the role of the profile only get the same queryset of devices, of
  measurements and of alerts.
\<close>

theorem role_grants_no_visibility:
  "can_view_all_organizations p = (is_superuser (UserProfile.user p) \<or> role p = ADMIN)
   \<and> DeviceAdmin_get_queryset
         \<lparr>request.user = u\<lparr>profile := Some (p\<lparr>role := r1\<rparr>)\<rparr>, messages = ms\<rparr>
       = DeviceAdmin_get_queryset
           \<lparr>request.user = u\<lparr>profile := Some (p\<lparr>role := r2\<rparr>)\<rparr>, messages = ms\<rparr>
   \<and> MeasurementAdmin_get_queryset
         \<lparr>request.user = u\<lparr>profile := Some (p\<lparr>role := r1\<rparr>)\<rparr>, messages = ms\<rparr>
       = MeasurementAdmin_get_queryset
           \<lparr>request.user = u\<lparr>profile := Some (p\<lparr>role := r2\<rparr>)\<rparr>, messages = ms\<rparr>
   \<and> AlertAdmin_get_queryset
         \<lparr>request.user = u\<lparr>profile := Some (p\<lparr>role := r1\<rparr>)\<rparr>, messages = ms\<rparr>
       = AlertAdmin_get_queryset
           \<lparr>request.user = u\<lparr>profile := Some (p\<lparr>role := r2\<rparr>)\<rparr>, messages = ms\<rparr>"
  using filtered_role_indep [where m = Device_model and u = u and p = p and ?r1.0 = r1
      and ?r2.0 = r2 and ms = ms]
    filtered_role_indep [where m = Measurement_model and u = u and p = p and ?r1.0 = r1
      and ?r2.0 = r2 and ms = ms]
    filtered_role_indep [where m = Alert_model and u = u and p = p and ?r1.0 = r1
      and ?r2.0 = r2 and ms = ms]
  by (simp add: can_view_all_organizations_def DeviceAdmin_get_queryset_def
      MeasurementAdmin_get_queryset_def AlertAdmin_get_queryset_def)

theorem role_grants_no_visibility_witness:
  "can_view_all_organizations (scenario_profile ADMIN (Some 1))
   \<and> \<not> can_view_all_organizations (scenario_profile VIEWER (Some 1))
   \<and> fetch Device_model (DeviceAdmin_get_queryset (scenario_request ADMIN (Some 1))) scenario_db
       = [D1]
   \<and> DeviceAdmin_get_queryset (scenario_request ADMIN (Some 1))
       = DeviceAdmin_get_queryset (scenario_request VIEWER (Some 1))"
proof -
  have r: "\<And>r. scenario_request r (Some 1) =
      \<lparr>request.user = \<lparr>username = ''p'', is_superuser = False, profile = None\<rparr>
         \<lparr>profile := Some ((scenario_profile VIEWER (Some 1))\<lparr>role := r\<rparr>)\<rparr>,
       messages = []\<rparr>"
    by (simp add: scenario_request_def scenario_profile_def UserProfile_create_def
        field_default_def)
  have eq: "DeviceAdmin_get_queryset (scenario_request ADMIN (Some 1))
       = DeviceAdmin_get_queryset (scenario_request VIEWER (Some 1))"
    unfolding r
    using role_grants_no_visibility [where p = "scenario_profile VIEWER (Some 1)"
        and u = "\<lparr>username = ''p'', is_superuser = False, profile = None\<rparr>"
        and ?r1.0 = ADMIN and ?r2.0 = VIEWER and ms = "[]"]
    by blast
  have a: "can_view_all_organizations (scenario_profile ADMIN (Some 1))"
    by (simp add: can_view_all_organizations_def scenario_profile_def UserProfile_create_def
        field_default_def)
  have v: "\<not> can_view_all_organizations (scenario_profile VIEWER (Some 1))"
    by (simp add: can_view_all_organizations_def scenario_profile_def UserProfile_create_def
        field_default_def scenario_user_def)
  have l: "fetch Device_model (DeviceAdmin_get_queryset (scenario_request ADMIN (Some 1)))
             scenario_db = [D1]"
    by (simp add: fetch_def Device_model_def Device_scope [of _ "\<lambda>db d. None"]
        visible_scope_def scenario_defs)
  from a v l eq show ?thesis by blast
qed

text \<open>
  C10. A record created without the keyword has state ACTIVE, whatever its model; an
  alert created without them has level MEDIUM and is not resolved; a user profile created
  without a role is a VIEWER.
\<close>

theorem creation_defaults:
  "state (Category_create i now nm None) = ACTIVE
   \<and> state (Organization_create i now nm em None) = ACTIVE
   \<and> state (Zone_create i now nm None) = ACTIVE
   \<and> state (Device_create i now nm cat zn mx org None) = ACTIVE
   \<and> state (Measurement_create i now dev us None) = ACTIVE
   \<and> state (Alert_create i now dev msg lv res None) = ACTIVE
   \<and> state (UserProfile_create i now u uorg rl ph None) = ACTIVE
   \<and> level (Alert_create i now dev msg None res st) = MEDIUM
   \<and> is_resolved (Alert_create i now dev msg lv None st) = False
   \<and> role (UserProfile_create i now u uorg None ph st) = VIEWER"
  by (simp add: Category_create_def Organization_create_def Zone_create_def Device_create_def
      Measurement_create_def Alert_create_def UserProfile_create_def field_default_def)

text \<open>
  C4: the source does not do what the claim says. A profile whose user is no superuser and
  whose organization is null is granted access to the null organization, since the method
  compares the two with \<open>==\<close> and has no test for null.
\<close>

theorem has_organization_access_null_null:
  "\<not> is_superuser (UserProfile.user (scenario_profile VIEWER None))
   \<and> UserProfile.organization (scenario_profile VIEWER None) = None
   \<and> has_organization_access (scenario_profile VIEWER None) None"
  by (simp add: has_organization_access_def scenario_profile_def UserProfile_create_def
      scenario_user_def)

text \<open>
  C8: the source does not do what the claim says. The bulk action changes the state of D1
  through \<open>queryset.update\<close>, which leaves \<open>updated_at\<close> at the time of creation, whereas
  saving the row at time 5 sets it to 5.
\<close>

theorem bulk_update_keeps_updated_at:
  "state D1 = INACTIVE \<and> updated_at D1 = 0
   \<and> devices (fst (response_action DeviceAdmin_get_queryset mark_as_active
                     (scenario_request OPERATOR (Some 1)) [pk D1] scenario_db))
       = [D1\<lparr>state := ACTIVE\<rparr>, D2]
   \<and> updated_at (D1\<lparr>state := ACTIVE\<rparr>) = 0
   \<and> updated_at (save 5 (D1\<lparr>state := ACTIVE\<rparr>)) = 5"
  by (simp add: response_action_def mark_as_active_def Device_update_state_def
      update_rows_def split_beta qs_filter_def Device_scope [of _ "\<lambda>db d. None"]
      visible_scope_def save_def scenario_defs)

end
